theory Spec2Isabelle
  imports Complex_Main "HOL-Library.Word"
begin

section \<open>JavaScript strings\<close>

text \<open>
  A JavaScript string is a sequence of UTF-16 code units; \<open>length\<close>, \<open>substring\<close>,
  \<open>trim\<close>, \<open>split\<close> and the regular expressions used by the plugin (none has the
  \<open>u\<close> flag) all work on code units.  \<open>js\<close> turns an ASCII literal into such a string.
\<close>

type_synonym jschar = "16 word"
type_synonym jsstring = "jschar list"

definition js :: "string \<Rightarrow> jsstring" where
  "js s = map (\<lambda>c. of_nat (of_char c)) s"

text \<open>ECMAScript \<open>LineTerminator\<close>: LF, CR, LS, PS.\<close>

definition isLineTerminator :: "jschar \<Rightarrow> bool" where
  "isLineTerminator c = (c = 0x000A \<or> c = 0x000D \<or> c = 0x2028 \<or> c = 0x2029)"

text \<open>
  What \<open>String.prototype.trim\<close> strips and what \<open>\s\<close> matches: \<open>WhiteSpace\<close>
  (TAB, VT, FF, SP, NBSP, ZWNBSP and the Unicode space separators) and \<open>LineTerminator\<close>.
\<close>

definition isWhiteSpace :: "jschar \<Rightarrow> bool" where
  "isWhiteSpace c =
     (c = 0x0009 \<or> c = 0x000B \<or> c = 0x000C \<or> c = 0x0020 \<or> c = 0x00A0 \<or> c = 0x1680
      \<or> (0x2000 \<le> c \<and> c \<le> 0x200A) \<or> c = 0x202F \<or> c = 0x205F \<or> c = 0x3000
      \<or> c = 0xFEFF \<or> isLineTerminator c)"

text \<open>\<open>s.trim()\<close>\<close>

definition trim :: "jsstring \<Rightarrow> jsstring" where
  "trim s = rev (dropWhile isWhiteSpace (rev (dropWhile isWhiteSpace s)))"

text \<open>
  \<open>s.split(sep)\<close> for a separator that is one code unit, or a regular expression that is
  one character class: the pieces between the separators, the separators dropped.  The result
  always has at least one piece (\<open>''''.split(sep)\<close> is \<open>['''']\<close>), so the last branch of the
  \<open>case\<close> is never taken.
\<close>

fun splitOn :: "(jschar \<Rightarrow> bool) \<Rightarrow> jsstring \<Rightarrow> jsstring list" where
  "splitOn p [] = [[]]"
| "splitOn p (c # cs) =
     (if p c then [] # splitOn p cs
      else (case splitOn p cs of w # ws \<Rightarrow> (c # w) # ws | [] \<Rightarrow> [[c]]))"

text \<open>\<open>s.split(/\s+/)\<close>: the pieces between the maximal runs of white space.\<close>

function splitWs :: "jsstring \<Rightarrow> jsstring list" where
  "splitWs [] = [[]]"
| "splitWs (c # cs) =
     (if isWhiteSpace c then [] # splitWs (dropWhile isWhiteSpace cs)
      else (case splitWs cs of w # ws \<Rightarrow> (c # w) # ws | [] \<Rightarrow> [[c]]))"
  by pat_completeness auto
termination
  by (relation "measure length") (auto simp: less_Suc_eq_le length_dropWhile_le)

text \<open>\<open>xs.join(sep)\<close> on an array of strings.\<close>

fun join :: "jsstring \<Rightarrow> jsstring list \<Rightarrow> jsstring" where
  "join sep [] = []"
| "join sep [x] = x"
| "join sep (x # y # ys) = x @ sep @ join sep (y # ys)"

text \<open>\<open>s.substring(0, n)\<close> for a constant \<open>n \<ge> 0\<close>.\<close>

definition substring0 :: "nat \<Rightarrow> jsstring \<Rightarrow> jsstring" where
  "substring0 n s = take n s"

text \<open>\<open>s.replace(/[class]/g, repl)\<close>: every code unit of the class is replaced.\<close>

definition replaceAll :: "(jschar \<Rightarrow> bool) \<Rightarrow> jsstring \<Rightarrow> jsstring \<Rightarrow> jsstring" where
  "replaceAll p repl s = concat (map (\<lambda>c. if p c then repl else [c]) s)"

text \<open>
  \<open>xs.slice(0, k)\<close> for an integral \<open>k\<close>: a negative \<open>k\<close> counts from the end of the
  array.
\<close>

definition slice0 :: "int \<Rightarrow> 'a list \<Rightarrow> 'a list" where
  "slice0 k xs =
     (if k < 0 then take (nat (int (length xs) + k)) xs else take (nat k) xs)"


section \<open>Settings, collaborators and effects\<close>

text \<open>
  The settings.  \<open>numberOfSentences\<close> is a JavaScript number; the settings tab stores only
  what \<open>parseInt\<close> returned, so it is an integer here.
\<close>

record settings =
  apiKey :: jsstring
  modelId :: jsstring
  numberOfSentences :: int
  autoUpdateUntitledNotes :: bool

definition DEFAULT_PLUGIN_SETTINGS :: settings where
  "DEFAULT_PLUGIN_SETTINGS =
     \<lparr> apiKey = [], modelId = js ''gemini-2.5-flash-preview-04-17'',
       numberOfSentences = 8, autoUpdateUntitledNotes = False \<rparr>"

text \<open>
  The value \<open>JSON.parse\<close> returns.  A JSON number is a double; the plugin only tests it for
  truthiness, so a rational stands for it (an overflowing literal parses to \<open>Infinity\<close>,
  truthy like every other non-zero number).
\<close>

datatype json =
    JNull
  | JBool bool
  | JNumber rat
  | JString jsstring
  | JArray "json list"
  | JObject "(jsstring \<times> json) list"

text \<open>JavaScript truthiness of a parsed value.\<close>

fun truthy :: "json \<Rightarrow> bool" where
  "truthy JNull = False"
| "truthy (JBool b) = b"
| "truthy (JNumber x) = (x \<noteq> 0)"
| "truthy (JString s) = (s \<noteq> [])"
| "truthy (JArray xs) = True"
| "truthy (JObject kvs) = True"

text \<open>
  \<open>jsonResponse.title\<close> on a value that is not \<open>null\<close>: the member of an object, and
  \<open>undefined\<close> (\<open>None\<close>) on an object without it, on an array and on a primitive.
\<close>

fun getTitle :: "json \<Rightarrow> json option" where
  "getTitle (JObject kvs) = map_of kvs (js ''title'')"
| "getTitle j = None"

text \<open>\<open>typeof v === 'string'\<close>\<close>

fun typeofString :: "json \<Rightarrow> bool" where
  "typeofString (JString s) = True"
| "typeofString j = False"

text \<open>
  The summarizer of the library \<open>ts-textrank\<close>, lines 265 to 281.  Building it (the
  similarity function, the parser, the configuration and the summarizer of lines 265 to
  277) throws before \<open>summarize\<close> is called, or \<open>summarize\<close> is called at line 281 and
  throws, or it returns its result, which the plugin tests for being absent before it reads
  its length.
\<close>

datatype summary_outcome =
    SummarizerSetupThrows
  | SummarizerThrows
  | SummaryNull
  | SummarySentences "jsstring list"

text \<open>
  The Gemini model, lines 315 to 360.  Building the client and the model (lines 315 and
  316) throws before \<open>generateContent\<close> is called, or \<open>generateContent\<close> is called at line
  353 and throws, or its result has no \<open>response\<close>, or it has one, whose \<open>text()\<close> throws or
  returns the response text.
\<close>

datatype oracle_outcome =
    OracleSetupThrows
  | OracleThrows
  | OracleNoResponse
  | OracleTextThrows
  | OracleText jsstring

text \<open>
  The collaborators of the plugin: the summarizer (given the number of sentences and the
  text), the model (given the API key, the model identifier and the prompt), \<open>JSON.parse\<close>
  (\<open>None\<close> when it throws) and the host's \<open>renameFile\<close> (\<open>False\<close> when it rejects).  The
  outcome of the summarizer and of the model says whether the call itself was reached.
\<close>

record env =
  summarize :: "int \<Rightarrow> jsstring \<Rightarrow> summary_outcome"
  generateContent :: "jsstring \<Rightarrow> jsstring \<Rightarrow> jsstring \<Rightarrow> oracle_outcome"
  jsonParse :: "jsstring \<Rightarrow> json option"
  renameFile :: "jsstring \<Rightarrow> jsstring \<Rightarrow> bool"

text \<open>The effects of a run, in the order they happen.\<close>

datatype event =
    Notice jsstring
  | Summarize int jsstring
  | GenerateContent jsstring
  | RenameFile jsstring jsstring

text \<open>How an \<open>async\<close> function ends.\<close>

datatype 'a promise = Rejected | Resolved 'a

fun isSummarize :: "event \<Rightarrow> bool" where
  "isSummarize (Summarize k t) = True"
| "isSummarize ev = False"

fun isGenerateContent :: "event \<Rightarrow> bool" where
  "isGenerateContent (GenerateContent p) = True"
| "isGenerateContent ev = False"

fun isRenameFile :: "event \<Rightarrow> bool" where
  "isRenameFile (RenameFile a b) = True"
| "isRenameFile ev = False"


section \<open>The notices\<close>

definition dquote :: jschar where
  "dquote = 0x0022"

definition MSG_API_KEY_NOT_SET :: jsstring where
  "MSG_API_KEY_NOT_SET =
     js ''Gemini API Key is not set. Please configure it in the plugin settings.''"

definition MSG_NO_KEY_SENTENCES :: jsstring where
  "MSG_NO_KEY_SENTENCES =
     js ''ts-textrank found no key sentences, using the first 500 characters of the note for context.''"

definition MSG_EXTRACTION_ERROR :: jsstring where
  "MSG_EXTRACTION_ERROR =
     js ''Error during sentence extraction with ts-textrank. Using fallback. Check console.''"

definition MSG_NOTE_EMPTY :: jsstring where
  "MSG_NOTE_EMPTY = js ''Note is empty. Cannot generate title.''"

definition MSG_NO_MEANINGFUL_CONTENT :: jsstring where
  "MSG_NO_MEANINGFUL_CONTENT =
     js ''Could not extract any meaningful content from the note to generate a title.''"

definition MSG_INVALID_TITLE :: jsstring where
  "MSG_INVALID_TITLE = js ''Failed to get a valid title from Gemini JSON response.''"

definition MSG_PARSE_FAILED :: jsstring where
  "MSG_PARSE_FAILED = js ''Failed to parse Gemini JSON response for title.''"

definition MSG_NO_RESPONSE :: jsstring where
  "MSG_NO_RESPONSE = js ''Failed to generate title from Gemini API. No response.''"

definition MSG_ERROR_GENERATING :: jsstring where
  "MSG_ERROR_GENERATING = js ''Error generating title. Check console for details.''"

definition MSG_GENERATED_EMPTY :: jsstring where
  "MSG_GENERATED_EMPTY = js ''Generated title is empty. No changes made.''"

definition MSG_SANITIZED_EMPTY :: jsstring where
  "MSG_SANITIZED_EMPTY = js ''Sanitized title is empty. No changes made.''"

definition MSG_ALREADY :: "jsstring \<Rightarrow> jsstring" where
  "MSG_ALREADY sanitizedTitle =
     js ''Note title is already '' @ [dquote] @ sanitizedTitle @ [dquote]
       @ js ''. No changes made.''"

definition MSG_UPDATED :: "jsstring \<Rightarrow> jsstring" where
  "MSG_UPDATED sanitizedTitle =
     js ''Note title updated to: '' @ [dquote] @ sanitizedTitle @ [dquote]"

definition MSG_ERROR_UPDATING :: jsstring where
  "MSG_ERROR_UPDATING = js ''Error updating note title. Check console for details.''"


section \<open>main.ts: generateTitle\<close>

text \<open>
  \<open>/^!\[\[.*]]$/.test(s)\<close>: without flags the anchors are the two ends of \<open>s\<close> and the dot
  is any code unit but a line terminator, so \<open>s\<close> is \<open>![[\<close>, then code units that are not
  line terminators, then \<open>]]\<close>.
\<close>

definition imageEmbeddingRegex_test :: "jsstring \<Rightarrow> bool" where
  "imageEmbeddingRegex_test s =
     (5 \<le> length s \<and> take 3 s = js ''![['' \<and> drop (length s - 2) s = js '']]''
      \<and> list_all (\<lambda>c. \<not> isLineTerminator c) (take (length s - 5) (drop 3 s)))"

definition isNewline :: "jschar \<Rightarrow> bool" where
  "isNewline c = (c = 0x000A)"

text \<open>Lines 259 to 262: the note without its image-embedding lines.\<close>

definition processedNoteContent :: "jsstring \<Rightarrow> jsstring" where
  "processedNoteContent noteContent =
     (let lines = splitOn isNewline noteContent;
          filteredLines = filter (\<lambda>line. \<not> imageEmbeddingRegex_test (trim line)) lines
      in join [0x000A] filteredLines)"

text \<open>
  Lines 290 and 297, the same expression in both places:
  \<open>processedNoteContent.trim() ? processedNoteContent.substring(0, 500)
     : noteContent.substring(0, 500)\<close>
\<close>

definition fallbackContext :: "jsstring \<Rightarrow> jsstring \<Rightarrow> jsstring" where
  "fallbackContext processed noteContent =
     (if trim processed \<noteq> [] then substring0 500 processed else substring0 500 noteContent)"

text \<open>
  Lines 257 to 298: the value of \<open>extractedSentences\<close> after the inner \<open>try\<close>, with the
  effects up to there.  An exception of lines 265 to 277 reaches the \<open>catch\<close> of line 293
  before \<open>summarize\<close> is called, and no call is recorded.
\<close>

definition extractSentences :: "env \<Rightarrow> settings \<Rightarrow> jsstring \<Rightarrow> jsstring \<times> event list" where
  "extractSentences e st noteContent =
     (let processed = processedNoteContent noteContent;
          call = Summarize (numberOfSentences st) processed
      in case summarize e (numberOfSentences st) processed of
           SummarySentences summarySentences \<Rightarrow>
             (if length summarySentences > 0
              then (join (js '' '') summarySentences, [call])
              else (fallbackContext processed noteContent, [call, Notice MSG_NO_KEY_SENTENCES]))
         | SummaryNull \<Rightarrow>
             (fallbackContext processed noteContent, [call, Notice MSG_NO_KEY_SENTENCES])
         | SummarizerThrows \<Rightarrow>
             (fallbackContext processed noteContent, [call, Notice MSG_EXTRACTION_ERROR])
         | SummarizerSetupThrows \<Rightarrow>
             (fallbackContext processed noteContent, [Notice MSG_EXTRACTION_ERROR]))"

text \<open>Line 318: the prompt.\<close>

definition titlePrompt :: "jsstring \<Rightarrow> jsstring" where
  "titlePrompt extractedSentences =
     js ''Based on the following key sentences, provide a single, concise title for a note. The title should be 10 words or less. Key sentences: ''
       @ [dquote] @ extractedSentences @ [dquote]"

text \<open>
  Line 363: \<open>jsonResponse && jsonResponse.title && typeof jsonResponse.title === 'string'\<close>
\<close>

definition validTitle :: "json \<Rightarrow> bool" where
  "validTitle jsonResponse =
     (truthy jsonResponse \<and>
      (case getTitle jsonResponse of
         None \<Rightarrow> False
       | Some title \<Rightarrow> truthy title \<and> typeofString title))"

fun stringOf :: "json \<Rightarrow> jsstring" where
  "stringOf (JString s) = s"
| "stringOf j = []"

text \<open>
  Lines 315 to 376, the call of the model and the reading of its answer.  \<open>Inl ()\<close> is an
  exception that leaves this part, for the \<open>catch\<close> of line 378.  When the client or the
  model cannot be built (lines 315 and 316), the exception leaves before the call of line
  353, and no call is recorded.
\<close>

definition requestTitle ::
  "env \<Rightarrow> settings \<Rightarrow> jsstring \<Rightarrow> (unit + jsstring option) \<times> event list" where
  "requestTitle e st extractedSentences =
     (let prompt = titlePrompt extractedSentences;
          call = GenerateContent prompt
      in case generateContent e (apiKey st) (modelId st) prompt of
           OracleSetupThrows \<Rightarrow> (Inl (), [])
         | OracleThrows \<Rightarrow> (Inl (), [call])
         | OracleNoResponse \<Rightarrow> (Inr None, [call, Notice MSG_NO_RESPONSE])
         | OracleTextThrows \<Rightarrow> (Inl (), [call])
         | OracleText responseText \<Rightarrow>
             (case jsonParse e responseText of
                None \<Rightarrow> (Inr None, [call, Notice MSG_PARSE_FAILED])
              | Some jsonResponse \<Rightarrow>
                  (if validTitle jsonResponse
                   then (Inr (Some (trim (stringOf (the (getTitle jsonResponse))))), [call])
                   else (Inr None, [call, Notice MSG_INVALID_TITLE]))))"

text \<open>Lines 249 to 382.\<close>

definition generateTitle ::
  "env \<Rightarrow> settings \<Rightarrow> jsstring \<Rightarrow> jsstring option promise \<times> event list" where
  "generateTitle e st noteContent =
     (if apiKey st = [] then (Resolved None, [Notice MSG_API_KEY_NOT_SET])
      else
        (case extractSentences e st noteContent of
           (extractedSentences, evs) \<Rightarrow>
             (if extractedSentences = [] \<or> length (trim extractedSentences) = 0
              then (if length (trim noteContent) = 0
                    then (Resolved None, evs @ [Notice MSG_NOTE_EMPTY])
                    else (Resolved None, evs @ [Notice MSG_NO_MEANINGFUL_CONTENT]))
              else (case requestTitle e st extractedSentences of
                      (Inl u, evs') \<Rightarrow>
                        (Resolved None, evs @ evs' @ [Notice MSG_ERROR_GENERATING])
                    | (Inr r, evs') \<Rightarrow> (Resolved r, evs @ evs')))))"


section \<open>main.ts: updateNoteTitle and its callers\<close>

text \<open>A \<open>TFile\<close>; \<open>parent\<close> is the path of the parent folder, \<open>None\<close> when there is none.\<close>

record tfile =
  path :: jsstring
  parent :: "jsstring option"
  basename :: jsstring
  extension :: jsstring

text \<open>The class \<open>[\\/:*?"<>|]\<close> of line 393.\<close>

definition isForbidden :: "jschar \<Rightarrow> bool" where
  "isForbidden c =
     (c = 0x005C \<or> c = 0x002F \<or> c = 0x003A \<or> c = 0x002A \<or> c = 0x003F \<or> c = 0x0022
      \<or> c = 0x003C \<or> c = 0x003E \<or> c = 0x007C)"

text \<open>The class \<open>[\n\r]\<close> of line 394.\<close>

definition isNewlineOrReturn :: "jschar \<Rightarrow> bool" where
  "isNewlineOrReturn c = (c = 0x000A \<or> c = 0x000D)"

text \<open>Lines 392 to 395.\<close>

definition sanitizedTitle :: "jsstring \<Rightarrow> jsstring" where
  "sanitizedTitle newTitle =
     trim (replaceAll isNewlineOrReturn (js '' '') (replaceAll isForbidden [] newTitle))"

text \<open>Lines 403 and 404.\<close>

definition newPath :: "tfile \<Rightarrow> jsstring \<Rightarrow> jsstring" where
  "newPath file title =
     (let parentPath = (case parent file of Some p \<Rightarrow> p | None \<Rightarrow> [])
      in if parentPath \<noteq> [] then parentPath @ js ''/'' @ title @ js ''.'' @ extension file
         else title @ js ''.'' @ extension file)"

text \<open>Lines 384 to 419.\<close>

definition updateNoteTitle :: "env \<Rightarrow> tfile \<Rightarrow> jsstring \<Rightarrow> bool promise \<times> event list" where
  "updateNoteTitle e file newTitle =
     (if newTitle = [] \<or> trim newTitle = []
      then (Resolved False, [Notice MSG_GENERATED_EMPTY])
      else if sanitizedTitle newTitle = []
      then (Resolved False, [Notice MSG_SANITIZED_EMPTY])
      else if path file = newPath file (sanitizedTitle newTitle)
      then (Resolved False, [Notice (MSG_ALREADY (sanitizedTitle newTitle))])
      else if renameFile e (path file) (newPath file (sanitizedTitle newTitle))
      then (Resolved True,
            [RenameFile (path file) (newPath file (sanitizedTitle newTitle)),
             Notice (MSG_UPDATED (sanitizedTitle newTitle))])
      else (Resolved False,
            [RenameFile (path file) (newPath file (sanitizedTitle newTitle)),
             Notice MSG_ERROR_UPDATING]))"

text \<open>
  Lines 142 to 145, the step every caller of \<open>generateTitle\<close> repeats (lines 77 to 79,
  110 to 112, 182 to 185 and 231 to 234): the title is applied when it is truthy.
\<close>

definition generateAndUpdate :: "env \<Rightarrow> settings \<Rightarrow> tfile \<Rightarrow> jsstring \<Rightarrow> event list" where
  "generateAndUpdate e st file noteContent =
     (case generateTitle e st noteContent of
        (Resolved (Some generatedTitle), evs) \<Rightarrow>
          (if generatedTitle \<noteq> [] then evs @ snd (updateNoteTitle e file generatedTitle)
           else evs)
      | (Resolved None, evs) \<Rightarrow> evs
      | (Rejected, evs) \<Rightarrow> evs)"


section \<open>The earlier generateTitle (src/unnamed/part_000)\<close>

text \<open>The class \<open>[.?!]\<close> of line 161.\<close>

definition isTerminal :: "jschar \<Rightarrow> bool" where
  "isTerminal c = (c = 0x002E \<or> c = 0x003F \<or> c = 0x0021)"

text \<open>
  Line 161: \<open>sentences = noteContent.split(/[.?!]/g)\<close>.  The assignment of line 153, the
  split at \<open>sentenceEndRegex\<close>, is overwritten here before it is read.
\<close>

definition sentences :: "jsstring \<Rightarrow> jsstring list" where
  "sentences noteContent = splitOn isTerminal noteContent"

text \<open>Lines 164 to 167.\<close>

definition validSentences :: "jsstring \<Rightarrow> jsstring list" where
  "validSentences noteContent =
     filter (\<lambda>s. length (splitWs s) \<ge> 3)
       (filter (\<lambda>s. length s > 0) (map trim (sentences noteContent)))"

text \<open>Line 172.\<close>

definition sentencesToUse :: "settings \<Rightarrow> jsstring \<Rightarrow> jsstring list" where
  "sentencesToUse st noteContent = slice0 (numberOfSentences st) (validSentences noteContent)"

text \<open>
  Lines 169 to 189: the value of \<open>extractedSentences\<close>, or \<open>None\<close> where the function
  returns \<open>null\<close> before the model is called.
\<close>

definition MSG_NO_DISTINCT_SENTENCES :: jsstring where
  "MSG_NO_DISTINCT_SENTENCES =
     js ''No distinct sentences found, using the first 500 characters of the note for context.''"

definition MSG_NO_CONTENT :: jsstring where
  "MSG_NO_CONTENT = js ''Could not extract any content from the note to generate a title.''"

definition extractSentences_part000 ::
  "settings \<Rightarrow> jsstring \<Rightarrow> jsstring option \<times> event list" where
  "extractSentences_part000 st noteContent =
     (if length (validSentences noteContent) > 0
      then (let used = sentencesToUse st noteContent;
                extractedSentences = join (js ''. '') used @ (if length used > 0 then js ''.'' else [])
            in if extractedSentences = [] \<or> length (trim extractedSentences) = 0
               then (None, [Notice MSG_NO_CONTENT])
               else (Some extractedSentences, []))
      else if length (trim noteContent) = 0
      then (None, [Notice MSG_NOTE_EMPTY])
      else (let extractedSentences = substring0 500 noteContent
            in if extractedSentences = [] \<or> length (trim extractedSentences) = 0
               then (None, [Notice MSG_NO_DISTINCT_SENTENCES, Notice MSG_NO_CONTENT])
               else (Some extractedSentences, [Notice MSG_NO_DISTINCT_SENTENCES])))"

text \<open>Lines 142 to 267.\<close>

definition generateTitle_part000 ::
  "env \<Rightarrow> settings \<Rightarrow> jsstring \<Rightarrow> jsstring option promise \<times> event list" where
  "generateTitle_part000 e st noteContent =
     (if apiKey st = [] then (Resolved None, [Notice MSG_API_KEY_NOT_SET])
      else
        (case extractSentences_part000 st noteContent of
           (None, evs) \<Rightarrow> (Resolved None, evs)
         | (Some extractedSentences, evs) \<Rightarrow>
             (case requestTitle e st extractedSentences of
                (Inl u, evs') \<Rightarrow> (Resolved None, evs @ evs' @ [Notice MSG_ERROR_GENERATING])
              | (Inr r, evs') \<Rightarrow> (Resolved r, evs @ evs'))))"


section \<open>What the specification talks about\<close>

text \<open>A qualifying sentence: not empty after trimming, and at least three tokens.\<close>

definition qualifies :: "jsstring \<Rightarrow> bool" where
  "qualifies s = (s \<noteq> [] \<and> 3 \<le> length (splitWs s))"

text \<open>
  A text put together again from its pieces and the characters it was split at: the first
  piece, the first separator, the second piece, and so on.
\<close>

fun interleave :: "jsstring list \<Rightarrow> jschar list \<Rightarrow> jsstring" where
  "interleave (w # v # ws) (c # cs) = w @ c # interleave (v # ws) cs"
| "interleave ws cs = concat ws"

text \<open>The characters illegal in a file name: \<open>\ / : * ? " < > |\<close>\<close>

definition illegalChars :: "jschar list" where
  "illegalChars = [0x005C, 0x002F, 0x003A, 0x002A, 0x003F, 0x0022, 0x003C, 0x003E, 0x007C]"

text \<open>
  The sanitized title in the specification's words: the illegal characters removed, then
  every newline and carriage return replaced by a space, then the result trimmed.
\<close>

definition sanitize_spec :: "jsstring \<Rightarrow> jsstring" where
  "sanitize_spec title =
     trim (map (\<lambda>c. if c = 0x000A \<or> c = 0x000D then 0x0020 else c)
             (filter (\<lambda>c. c \<notin> set illegalChars) title))"

text \<open>
  The oracle failures of the specification: a missing response, a response text that is not
  parseable JSON, a parsed object without a \<open>title\<close> member, or one whose \<open>title\<close> is not a
  string.
\<close>

definition oracleFailure :: "env \<Rightarrow> oracle_outcome \<Rightarrow> bool" where
  "oracleFailure e outcome =
     (case outcome of
        OracleNoResponse \<Rightarrow> True
      | OracleText responseText \<Rightarrow>
          (case jsonParse e responseText of
             None \<Rightarrow> True
           | Some (JObject kvs) \<Rightarrow>
               (case map_of kvs (js ''title'') of
                  None \<Rightarrow> True
                | Some title \<Rightarrow> \<not> typeofString title)
           | Some j \<Rightarrow> False)
      | OracleSetupThrows \<Rightarrow> False
      | OracleThrows \<Rightarrow> False
      | OracleTextThrows \<Rightarrow> False)"

text \<open>A response that parses to an object whose \<open>title\<close> is the empty string.\<close>

definition emptyTitleResponse :: "env \<Rightarrow> oracle_outcome \<Rightarrow> bool" where
  "emptyTitleResponse e outcome =
     (case outcome of
        OracleText responseText \<Rightarrow>
          (case jsonParse e responseText of
             Some (JObject kvs) \<Rightarrow> map_of kvs (js ''title'') = Some (JString [])
           | Some j \<Rightarrow> False
           | None \<Rightarrow> False)
      | OracleNoResponse \<Rightarrow> False
      | OracleSetupThrows \<Rightarrow> False
      | OracleThrows \<Rightarrow> False
      | OracleTextThrows \<Rightarrow> False)"


section \<open>Example inputs\<close>

text \<open>Collaborators that answer the same whatever they are asked.\<close>

definition constant_env :: "summary_outcome \<Rightarrow> oracle_outcome \<Rightarrow> json option \<Rightarrow> bool \<Rightarrow> env" where
  "constant_env s out j r =
     \<lparr> summarize = (\<lambda>k t. s), generateContent = (\<lambda>k m p. out), jsonParse = (\<lambda>t. j),
       renameFile = (\<lambda>a b. r) \<rparr>"

definition example_settings :: settings where
  "example_settings = DEFAULT_PLUGIN_SETTINGS\<lparr>apiKey := js ''key''\<rparr>"

definition two_sentences :: settings where
  "two_sentences = example_settings\<lparr>numberOfSentences := 2\<rparr>"

definition image_note :: jsstring where
  "image_note = js ''![[image.png]]''"

definition image_and_text_note :: jsstring where
  "image_and_text_note = js ''![[a.png]]'' @ [0x000A] @ js ''Hi''"

definition pets_note :: jsstring where
  "pets_note =
     js ''Cats are mammals. Dogs are mammals too. Both are popular pets. Birds can fly.''"

text \<open>No sentence from the summarizer; the model answers with the title \<open>Images\<close>.\<close>

definition images_env :: env where
  "images_env =
     constant_env (SummarySentences []) (OracleText (js ''{}''))
       (Some (JObject [(js ''title'', JString (js ''Images''))])) True"

text \<open>One sentence from the summarizer; the model call has no response.\<close>

definition no_response_env :: env where
  "no_response_env =
     constant_env (SummarySentences [js ''Cats are mammals.'']) OracleNoResponse None True"

text \<open>One sentence from the summarizer; the model answers with an empty title.\<close>

definition empty_title_env :: env where
  "empty_title_env =
     constant_env (SummarySentences [js ''Cats are mammals.'']) (OracleText (js ''{}''))
       (Some (JObject [(js ''title'', JString [])])) True"

definition padded_title :: jsstring where
  "padded_title = js ''  My Great Note  ''"

definition messy_title :: jsstring where
  "messy_title = js '' My: Great'' @ [0x000A] @ js ''Note? ''"

definition mr_note :: jsstring where
  "mr_note = js ''Mr. Smith spoke''"

text \<open>No model identifier: the model cannot be built.\<close>

definition no_model_settings :: settings where
  "no_model_settings = example_settings\<lparr>modelId := []\<rparr>"

definition no_model_env :: env where
  "no_model_env = constant_env (SummarySentences []) OracleSetupThrows None True"

definition great_note :: tfile where
  "great_note =
     \<lparr> path = js ''My Great Note.md'', parent = None, basename = js ''My Great Note'',
       extension = js ''md'' \<rparr>"


section \<open>Lemmas\<close>

lemmas eval_defs = js_def trim_def isWhiteSpace_def isLineTerminator_def isNewline_def
  imageEmbeddingRegex_test_def processedNoteContent_def fallbackContext_def substring0_def
  extractSentences_def requestTitle_def validTitle_def generateTitle_def constant_env_def
  example_settings_def DEFAULT_PLUGIN_SETTINGS_def Let_def

subsection \<open>Strings\<close>

lemma splitOn_nonempty: "splitOn p s \<noteq> []"
  by (induction s) (auto split: list.splits)

lemma length_splitOn: "length (splitOn p s) = Suc (length (filter p s))"
  by (induction s) (auto split: list.splits simp: splitOn_nonempty)

lemma concat_splitOn: "concat (splitOn p s) = filter (\<lambda>c. \<not> p c) s"
  by (induction s) (auto split: list.splits simp: splitOn_nonempty)

lemma set_splitOn: "\<forall>w \<in> set (splitOn p s). set w \<subseteq> set s"
  by (induction s) (auto split: list.splits if_splits)

lemma trim_eq_Nil: "trim s = [] \<longleftrightarrow> (\<forall>c \<in> set s. isWhiteSpace c)"
proof
  assume "trim s = []"
  then have "\<forall>c \<in> set (dropWhile isWhiteSpace s). isWhiteSpace c"
    by (simp add: trim_def)
  then have "dropWhile isWhiteSpace s = []"
    using hd_dropWhile [of isWhiteSpace s] by (cases "dropWhile isWhiteSpace s") auto
  then show "\<forall>c \<in> set s. isWhiteSpace c"
    by simp
next
  assume "\<forall>c \<in> set s. isWhiteSpace c"
  then show "trim s = []"
    by (auto simp: trim_def dest: set_dropWhileD)
qed

lemma set_trim: "set (trim s) \<subseteq> set s"
proof -
  have "set (trim s) \<subseteq> set (rev (dropWhile isWhiteSpace s))"
    unfolding trim_def set_rev by (auto dest: set_dropWhileD)
  then show ?thesis
    by (auto dest: set_dropWhileD)
qed

lemma replaceAll_remove: "replaceAll p [] s = filter (\<lambda>c. \<not> p c) s"
  by (induction s) (auto simp: replaceAll_def)

lemma replaceAll_single: "replaceAll p [r] s = map (\<lambda>c. if p c then r else c) s"
  by (induction s) (auto simp: replaceAll_def)

lemma splitOn_pieces: "\<forall>w \<in> set (splitOn p s). \<forall>c \<in> set w. \<not> p c"
  by (induction s) (auto split: list.splits if_splits)

lemma splitOn_cut:
  "\<forall>a \<in> set u. \<not> p a \<Longrightarrow> p c \<Longrightarrow> splitOn p (u @ c # v) = u # splitOn p v"
  by (induction u) auto

lemma splitOn_no_separator: "\<forall>a \<in> set u. \<not> p a \<Longrightarrow> splitOn p u = [u]"
  by (induction u) auto

lemma interleave_Cons: "interleave ((c # w) # ws) seps = c # interleave (w # ws) seps"
  by (cases ws; cases seps) simp_all

lemma interleave_splitOn: "interleave (splitOn p s) (filter p s) = s"
proof (induction s)
  case Nil
  show ?case by simp
next
  case (Cons c cs)
  obtain w ws where sp: "splitOn p cs = w # ws"
    using splitOn_nonempty [of p cs] by (cases "splitOn p cs") auto
  show ?case
  proof (cases "p c")
    case True
    then show ?thesis using Cons sp by simp
  next
    case False
    then show ?thesis using Cons sp by (simp add: interleave_Cons)
  qed
qed

lemma splitOn_unique:
  assumes "\<forall>w \<in> set ps. \<forall>a \<in> set w. \<not> p a" and "\<forall>c \<in> set seps. p c"
    and "length ps = Suc (length seps)"
  shows "splitOn p (interleave ps seps) = ps"
  using assms
proof (induction seps arbitrary: ps)
  case Nil
  then obtain w where "ps = [w]"
    by (cases ps) auto
  with Nil show ?case
    by (simp add: splitOn_no_separator)
next
  case (Cons c cs)
  then obtain w v ws where ps: "ps = w # v # ws"
    by (cases ps; cases "tl ps") auto
  with Cons.prems have "splitOn p (interleave (v # ws) cs) = v # ws"
    by (intro Cons.IH) auto
  moreover have "\<forall>a \<in> set w. \<not> p a" and "p c"
    using Cons.prems ps by auto
  ultimately show ?case
    using ps by (simp add: splitOn_cut)
qed

subsection \<open>Image-only notes\<close>

lemma imageEmbedding_bang: "imageEmbeddingRegex_test s \<Longrightarrow> 0x0021 \<in> set s"
proof -
  assume "imageEmbeddingRegex_test s"
  then have "take 3 s = js ''![[''"
    by (simp add: imageEmbeddingRegex_test_def)
  then have "0x0021 \<in> set (take 3 s)"
    by (simp add: js_def)
  then show ?thesis
    by (rule in_set_takeD)
qed

lemma bang_not_white: "\<not> isWhiteSpace 0x0021"
  by (simp add: isWhiteSpace_def isLineTerminator_def)

lemma image_only_processed:
  assumes "\<forall>line \<in> set (splitOn isNewline c). imageEmbeddingRegex_test (trim line)"
  shows "processedNoteContent c = []"
proof -
  have "filter (\<lambda>line. \<not> imageEmbeddingRegex_test (trim line)) (splitOn isNewline c) = []"
    using assms by (simp add: filter_empty_conv)
  then show ?thesis
    by (simp add: processedNoteContent_def)
qed

lemma image_only_not_blank:
  assumes "\<forall>line \<in> set (splitOn isNewline c). imageEmbeddingRegex_test (trim line)"
  shows "trim c \<noteq> []"
proof -
  obtain l ls where l: "splitOn isNewline c = l # ls"
    using splitOn_nonempty [of isNewline c] by (cases "splitOn isNewline c") auto
  then have "imageEmbeddingRegex_test (trim l)"
    using assms by simp
  then have "0x0021 \<in> set (trim l)"
    by (rule imageEmbedding_bang)
  then have "0x0021 \<in> set l"
    using set_trim by blast
  moreover have "set l \<subseteq> set c"
    using set_splitOn [of isNewline c] l by simp
  ultimately have "0x0021 \<in> set c"
    by blast
  then show ?thesis
    using bang_not_white by (auto simp: trim_eq_Nil)
qed

subsection \<open>The notices of generateTitle\<close>

lemma MSG_NOTE_EMPTY_distinct:
  "MSG_NOTE_EMPTY \<notin> {MSG_API_KEY_NOT_SET, MSG_NO_KEY_SENTENCES, MSG_EXTRACTION_ERROR,
     MSG_NO_MEANINGFUL_CONTENT, MSG_NO_RESPONSE, MSG_PARSE_FAILED, MSG_INVALID_TITLE,
     MSG_ERROR_GENERATING}"
  by (simp add: MSG_NOTE_EMPTY_def MSG_API_KEY_NOT_SET_def MSG_NO_KEY_SENTENCES_def
      MSG_EXTRACTION_ERROR_def MSG_NO_MEANINGFUL_CONTENT_def MSG_NO_RESPONSE_def
      MSG_PARSE_FAILED_def MSG_INVALID_TITLE_def MSG_ERROR_GENERATING_def js_def)

lemma MSG_ERROR_UPDATING_distinct:
  "MSG_ERROR_UPDATING \<notin> {MSG_GENERATED_EMPTY, MSG_SANITIZED_EMPTY, MSG_ALREADY s}"
  by (simp add: MSG_ERROR_UPDATING_def MSG_GENERATED_EMPTY_def MSG_SANITIZED_EMPTY_def
      MSG_ALREADY_def js_def)

lemma extractSentences_notices:
  "Notice m \<in> set (snd (extractSentences e st c))
     \<Longrightarrow> m \<in> {MSG_NO_KEY_SENTENCES, MSG_EXTRACTION_ERROR}"
  by (auto simp: extractSentences_def Let_def split: summary_outcome.splits if_splits)

lemma requestTitle_notices:
  "Notice m \<in> set (snd (requestTitle e st x))
     \<Longrightarrow> m \<in> {MSG_NO_RESPONSE, MSG_PARSE_FAILED, MSG_INVALID_TITLE}"
  by (auto simp: requestTitle_def Let_def split: oracle_outcome.splits option.splits if_splits)

lemma generateTitle_notices:
  assumes a: "Notice m \<in> set (snd (generateTitle e st c))"
  shows "m \<in> {MSG_API_KEY_NOT_SET, MSG_NO_KEY_SENTENCES, MSG_EXTRACTION_ERROR,
            MSG_NO_MEANINGFUL_CONTENT, MSG_NO_RESPONSE, MSG_PARSE_FAILED, MSG_INVALID_TITLE,
            MSG_ERROR_GENERATING} \<or> (m = MSG_NOTE_EMPTY \<and> trim c = [])"
proof -
  obtain x evs where ex: "extractSentences e st c = (x, evs)"
    by (cases "extractSentences e st c") auto
  obtain r evs' where rq: "requestTitle e st x = (r, evs')"
    by (cases "requestTitle e st x") auto
  have n1: "Notice m \<in> set evs \<Longrightarrow> m \<in> {MSG_NO_KEY_SENTENCES, MSG_EXTRACTION_ERROR}"
    using extractSentences_notices [of m e st c] ex by simp
  have n2: "Notice m \<in> set evs' \<Longrightarrow> m \<in> {MSG_NO_RESPONSE, MSG_PARSE_FAILED, MSG_INVALID_TITLE}"
    using requestTitle_notices [of m e st x] rq by simp
  from a n1 n2 show ?thesis
    by (auto simp: generateTitle_def ex rq split: if_splits sum.splits)
qed

subsection \<open>The oracle's answer\<close>

lemma requestTitle_failure:
  assumes "oracleFailure e (generateContent e (apiKey st) (modelId st) (titlePrompt x))"
  shows "\<exists>m \<in> {MSG_NO_RESPONSE, MSG_PARSE_FAILED, MSG_INVALID_TITLE}.
           requestTitle e st x = (Inr None, [GenerateContent (titlePrompt x), Notice m])"
  using assms
  by (auto simp: requestTitle_def oracleFailure_def validTitle_def Let_def
      split: oracle_outcome.splits option.splits json.splits)

lemma requestTitle_empty_title:
  assumes "emptyTitleResponse e (generateContent e (apiKey st) (modelId st) (titlePrompt x))"
  shows "requestTitle e st x
           = (Inr None, [GenerateContent (titlePrompt x), Notice MSG_INVALID_TITLE])"
  using assms
  by (auto simp: requestTitle_def emptyTitleResponse_def validTitle_def Let_def
      split: oracle_outcome.splits option.splits json.splits)

lemma extractSentences_no_rename: "filter isRenameFile (snd (extractSentences e st c)) = []"
  by (auto simp: extractSentences_def Let_def split: summary_outcome.splits)

lemma requestTitle_no_rename: "filter isRenameFile (snd (requestTitle e st x)) = []"
  by (auto simp: requestTitle_def Let_def split: oracle_outcome.splits option.splits)

lemma generateTitle_no_rename: "filter isRenameFile (snd (generateTitle e st c)) = []"
proof -
  obtain x evs where ex: "extractSentences e st c = (x, evs)"
    by (cases "extractSentences e st c") auto
  obtain r evs' where rq: "requestTitle e st x = (r, evs')"
    by (cases "requestTitle e st x") auto
  have "filter isRenameFile evs = []"
    using extractSentences_no_rename [of e st c] ex by simp
  moreover have "filter isRenameFile evs' = []"
    using requestTitle_no_rename [of e st x] rq by simp
  ultimately show ?thesis
    by (auto simp: generateTitle_def ex rq split: sum.splits)
qed

lemma generateAndUpdate_None:
  "fst (generateTitle e st c) = Resolved None
     \<Longrightarrow> generateAndUpdate e st f c = snd (generateTitle e st c)"
  by (cases "generateTitle e st c") (auto simp: generateAndUpdate_def)

lemma generateTitle_request:
  assumes "apiKey st \<noteq> []" and "trim (fst (extractSentences e st c)) \<noteq> []"
    and "requestTitle e st (fst (extractSentences e st c)) = (Inr r, evs)"
  shows "generateTitle e st c = (Resolved r, snd (extractSentences e st c) @ evs)"
proof -
  obtain x evs0 where ex: "extractSentences e st c = (x, evs0)"
    by (cases "extractSentences e st c") auto
  with assms have "trim x \<noteq> []" and "requestTitle e st x = (Inr r, evs)"
    by simp_all
  moreover from this have "x \<noteq> []"
    by (auto simp: trim_def)
  ultimately show ?thesis
    using assms(1) by (simp add: generateTitle_def ex)
qed

lemma generateTitle_blank_context:
  assumes "apiKey st = [] \<or> trim (fst (extractSentences e st c)) = []"
  shows "fst (generateTitle e st c) = Resolved None
       \<and> (\<exists>m evs. snd (generateTitle e st c) = evs @ [Notice m])"
proof -
  obtain x evs0 where ex: "extractSentences e st c = (x, evs0)"
    by (cases "extractSentences e st c") auto
  have "x = [] \<Longrightarrow> trim x = []"
    by (simp add: trim_def)
  with assms ex show ?thesis
    by (auto simp: generateTitle_def)
qed

subsection \<open>The selection of the earlier generateTitle\<close>

lemma validSentences_qualifies:
  "validSentences t = filter qualifies (map trim (sentences t))"
  by (simp add: validSentences_def qualifies_def [abs_def] conj_commute)


section \<open>The claims\<close>

subsection \<open>C1: a note of image embeddings only\<close>

text \<open>
  C1 as stated fails.  On the one-line note \<open>![[image.png]]\<close>, with a summarizer that finds
  no sentence, \<open>generateTitle\<close> shows the fallback notice, calls the model with a prompt
  built from the image markup itself and resolves to the model's title; the notice of an
  empty note is not shown and the result is not \<open>null\<close>.
\<close>

theorem image_only_note_reaches_oracle:
  "generateTitle images_env example_settings image_note
     = (Resolved (Some (js ''Images'')),
        [Summarize 8 [], Notice MSG_NO_KEY_SENTENCES, GenerateContent (titlePrompt image_note)])"
  by (simp add: eval_defs images_env_def image_note_def)

text \<open>
  C1 as amended.  For every note whose every line is solely an image-embedding marker, the
  filtered text is empty and the original text is not blank; when the summarizer yields no
  sentence or throws, the extraction context is the first 500 characters of the original
  text, and \<open>generateTitle\<close> never shows the notice of an empty note.  With an API key set
  and that slice not blank it goes on to the model with that context: when the client and
  the model are built, the model is called with the prompt made of it; when building them
  throws, the model is not called, the notice of an error is shown and the result is
  \<open>null\<close>.
\<close>

theorem image_only_note_context:
  assumes "\<forall>line \<in> set (splitOn isNewline c). imageEmbeddingRegex_test (trim line)"
    and "summarize e (numberOfSentences st) []
           \<in> {SummarySentences [], SummaryNull, SummarizerThrows, SummarizerSetupThrows}"
  shows "processedNoteContent c = [] \<and> trim c \<noteq> []
       \<and> fst (extractSentences e st c) = take 500 c
       \<and> Notice MSG_NOTE_EMPTY \<notin> set (snd (generateTitle e st c))
       \<and> (apiKey st \<noteq> [] \<and> trim (take 500 c) \<noteq> []
            \<and> generateContent e (apiKey st) (modelId st) (titlePrompt (take 500 c))
                 \<noteq> OracleSetupThrows
          \<longrightarrow> GenerateContent (titlePrompt (take 500 c)) \<in> set (snd (generateTitle e st c)))
       \<and> (apiKey st \<noteq> [] \<and> trim (take 500 c) \<noteq> []
            \<and> generateContent e (apiKey st) (modelId st) (titlePrompt (take 500 c))
                 = OracleSetupThrows
          \<longrightarrow> generateTitle e st c
                = (Resolved None,
                   snd (extractSentences e st c) @ [Notice MSG_ERROR_GENERATING]))"
proof -
  let ?out = "generateContent e (apiKey st) (modelId st) (titlePrompt (take 500 c))"
  have p: "processedNoteContent c = []"
    using assms(1) by (rule image_only_processed)
  have nb: "trim c \<noteq> []"
    using assms(1) by (rule image_only_not_blank)
  have "trim ([]::jsstring) = []"
    by (simp add: trim_def)
  then have x: "fst (extractSentences e st c) = take 500 c"
    using assms(2)
    by (auto simp: extractSentences_def p fallbackContext_def substring0_def)
  obtain evs0 where ex: "extractSentences e st c = (take 500 c, evs0)"
    using x by (cases "extractSentences e st c") auto
  have ne: "Notice MSG_NOTE_EMPTY \<notin> set (snd (generateTitle e st c))"
    using generateTitle_notices [of MSG_NOTE_EMPTY e st c] MSG_NOTE_EMPTY_distinct nb by blast
  have called: "GenerateContent (titlePrompt (take 500 c)) \<in> set (snd (generateTitle e st c))"
    if k: "apiKey st \<noteq> []" and t: "trim (take 500 c) \<noteq> []" and o: "?out \<noteq> OracleSetupThrows"
  proof -
    obtain r evs where rq: "requestTitle e st (take 500 c) = (r, evs)"
      by (cases "requestTitle e st (take 500 c)") auto
    then have "GenerateContent (titlePrompt (take 500 c)) \<in> set evs"
      using o
      by (auto simp: requestTitle_def Let_def split: oracle_outcome.splits option.splits if_splits)
    moreover have "take 500 c \<noteq> []"
      using t by (auto simp: trim_def)
    ultimately show ?thesis
      using k t rq ex by (auto simp: generateTitle_def split: sum.splits)
  qed
  have not_called: "generateTitle e st c
      = (Resolved None, snd (extractSentences e st c) @ [Notice MSG_ERROR_GENERATING])"
    if k: "apiKey st \<noteq> []" and t: "trim (take 500 c) \<noteq> []" and o: "?out = OracleSetupThrows"
  proof -
    have "requestTitle e st (take 500 c) = (Inl (), [])"
      using o by (simp add: requestTitle_def Let_def)
    moreover have "take 500 c \<noteq> []"
      using t by (auto simp: trim_def)
    ultimately show ?thesis
      using k t ex by (simp add: generateTitle_def)
  qed
  from p nb x ne called not_called show ?thesis by blast
qed

theorem image_only_note_context_witness:
  "splitOn isNewline image_note = [image_note]
   \<and> imageEmbeddingRegex_test (trim image_note)
   \<and> summarize images_env (numberOfSentences example_settings) []
        \<in> {SummarySentences [], SummaryNull, SummarizerThrows, SummarizerSetupThrows}
   \<and> apiKey example_settings \<noteq> [] \<and> trim (take 500 image_note) \<noteq> []
   \<and> generateContent images_env (apiKey example_settings) (modelId example_settings)
        (titlePrompt (take 500 image_note)) \<noteq> OracleSetupThrows
   \<and> processedNoteContent image_note = []
   \<and> fst (extractSentences images_env example_settings image_note) = image_note
   \<and> Notice MSG_NOTE_EMPTY \<notin> set (snd (generateTitle images_env example_settings image_note))
   \<and> GenerateContent (titlePrompt image_note)
        \<in> set (snd (generateTitle images_env example_settings image_note))
   \<and> summarize no_model_env (numberOfSentences no_model_settings) []
        \<in> {SummarySentences [], SummaryNull, SummarizerThrows, SummarizerSetupThrows}
   \<and> apiKey no_model_settings \<noteq> []
   \<and> generateContent no_model_env (apiKey no_model_settings) (modelId no_model_settings)
        (titlePrompt (take 500 image_note)) = OracleSetupThrows
   \<and> generateTitle no_model_env no_model_settings image_note
       = (Resolved None,
          [Summarize 8 [], Notice MSG_NO_KEY_SENTENCES, Notice MSG_ERROR_GENERATING])"
proof -
  have l: "splitOn isNewline image_note = [image_note]"
    by (simp add: image_note_def js_def isNewline_def)
  have i: "imageEmbeddingRegex_test (trim image_note)"
    by (simp add: eval_defs image_note_def)
  have h1: "\<forall>line \<in> set (splitOn isNewline image_note). imageEmbeddingRegex_test (trim line)"
    using l i by simp
  have h2: "summarize images_env (numberOfSentences example_settings) []
        \<in> {SummarySentences [], SummaryNull, SummarizerThrows, SummarizerSetupThrows}"
    by (simp add: images_env_def constant_env_def)
  have h3: "apiKey example_settings \<noteq> []"
    by (simp add: example_settings_def js_def)
  have t: "take 500 image_note = image_note"
    by (simp add: image_note_def js_def)
  have h4: "trim (take 500 image_note) \<noteq> []"
    by (simp add: image_note_def js_def trim_def isWhiteSpace_def isLineTerminator_def)
  have h5: "generateContent images_env (apiKey example_settings) (modelId example_settings)
        (titlePrompt (take 500 image_note)) \<noteq> OracleSetupThrows"
    by (simp add: images_env_def constant_env_def)
  have g2: "summarize no_model_env (numberOfSentences no_model_settings) []
        \<in> {SummarySentences [], SummaryNull, SummarizerThrows, SummarizerSetupThrows}"
    by (simp add: no_model_env_def constant_env_def)
  have g3: "apiKey no_model_settings \<noteq> []"
    by (simp add: no_model_settings_def example_settings_def js_def)
  have g5: "generateContent no_model_env (apiKey no_model_settings) (modelId no_model_settings)
        (titlePrompt (take 500 image_note)) = OracleSetupThrows"
    by (simp add: no_model_env_def constant_env_def)
  have g6: "snd (extractSentences no_model_env no_model_settings image_note)
      = [Summarize 8 [], Notice MSG_NO_KEY_SENTENCES]"
    by (simp add: eval_defs no_model_env_def no_model_settings_def image_note_def)
  note a = image_only_note_context [OF h1 h2]
  note b = image_only_note_context [OF h1 g2]
  from a h3 h4 h5 t have a1: "processedNoteContent image_note = []"
    and a2: "fst (extractSentences images_env example_settings image_note) = image_note"
    and a3: "Notice MSG_NOTE_EMPTY
        \<notin> set (snd (generateTitle images_env example_settings image_note))"
    and a4: "GenerateContent (titlePrompt image_note)
        \<in> set (snd (generateTitle images_env example_settings image_note))"
    by simp_all
  from b g3 h4 g5 g6 have b1: "generateTitle no_model_env no_model_settings image_note
       = (Resolved None,
          [Summarize 8 [], Notice MSG_NO_KEY_SENTENCES, Notice MSG_ERROR_GENERATING])"
    by simp
  from l i h2 h3 h4 h5 a1 a2 a3 a4 g2 g3 g5 b1 show ?thesis
    by blast
qed


subsection \<open>C2: the fallback context\<close>

text \<open>
  C2.  When the summarizer yields zero sentences (or nothing at all), and also when it
  throws (in the call or while it is built), the extraction context is the first 500 characters of the image-filtered text if
  that text is not empty after trimming, and the first 500 characters of the original text
  otherwise.
\<close>

theorem extractSentences_fallback:
  assumes "summarize e (numberOfSentences st) (processedNoteContent noteContent)
             \<in> {SummarySentences [], SummaryNull, SummarizerThrows, SummarizerSetupThrows}"
  shows "fst (extractSentences e st noteContent)
           = (if trim (processedNoteContent noteContent) \<noteq> []
              then take 500 (processedNoteContent noteContent) else take 500 noteContent)"
  using assms by (auto simp: extractSentences_def fallbackContext_def substring0_def Let_def)

theorem extractSentences_fallback_witness:
  "summarize images_env (numberOfSentences example_settings)
       (processedNoteContent image_and_text_note)
     \<in> {SummarySentences [], SummaryNull, SummarizerThrows, SummarizerSetupThrows}
   \<and> processedNoteContent image_and_text_note = js ''Hi''
   \<and> fst (extractSentences images_env example_settings image_and_text_note) = js ''Hi''"
proof -
  have h: "summarize images_env (numberOfSentences example_settings)
       (processedNoteContent image_and_text_note)
     \<in> {SummarySentences [], SummaryNull, SummarizerThrows, SummarizerSetupThrows}"
    by (simp add: images_env_def constant_env_def)
  have p: "processedNoteContent image_and_text_note = js ''Hi''"
    by (simp add: eval_defs image_and_text_note_def)
  have "trim (js ''Hi'') = js ''Hi''"
    by (simp add: js_def trim_def isWhiteSpace_def isLineTerminator_def)
  moreover have "take 500 (js ''Hi'') = js ''Hi''"
    by (simp add: js_def)
  moreover have "js ''Hi'' \<noteq> []"
    by (simp add: js_def)
  ultimately show ?thesis
    using extractSentences_fallback [OF h] h p by simp
qed


subsection \<open>C3: where the sentence parser splits\<close>

text \<open>
  C3 as stated fails: the parser has no abbreviation guard, and \<open>Mr. Smith spoke\<close> is split
  at the period of the abbreviation.
\<close>

theorem sentences_split_abbreviation:
  "sentences (js ''Mr. Smith spoke'') = [js ''Mr'', js '' Smith spoke'']"
  by (simp add: sentences_def js_def isTerminal_def)

text \<open>
  C3 as amended.  The sentence parser of the earlier \<open>generateTitle\<close> splits at every
  \<open>.\<close>, \<open>?\<close> and \<open>!\<close> of the text and nowhere else, abbreviation or not: no piece
  contains a terminal character; the pieces, with the terminal characters of the text put
  back between them in their order, are the text (so the pieces are one more than the
  terminal characters, and put together they are the text without them); a terminal
  character after a run \<open>u\<close> free of terminals cuts there, whatever \<open>u\<close> is: the first
  piece is \<open>u\<close> and the rest is the parse of what follows; and the parse of a text made of
  terminal-free pieces with one terminal character between each two of them is these
  pieces.
\<close>

theorem sentences_split_every_terminal:
  "length (sentences t) = Suc (length (filter isTerminal t))
   \<and> concat (sentences t) = filter (\<lambda>c. \<not> isTerminal c) t
   \<and> (\<forall>s \<in> set (sentences t). \<forall>c \<in> set s. \<not> isTerminal c)
   \<and> interleave (sentences t) (filter isTerminal t) = t
   \<and> ((\<forall>a \<in> set u. \<not> isTerminal a) \<and> isTerminal d
        \<longrightarrow> sentences (u @ d # v) = u # sentences v)
   \<and> ((\<forall>w \<in> set ps. \<forall>a \<in> set w. \<not> isTerminal a) \<and> (\<forall>c \<in> set seps. isTerminal c)
        \<and> length ps = Suc (length seps)
        \<longrightarrow> sentences (interleave ps seps) = ps)"
  using splitOn_pieces [of isTerminal t] splitOn_cut [of u isTerminal d v]
    splitOn_unique [of ps isTerminal seps]
  by (simp add: sentences_def length_splitOn concat_splitOn interleave_splitOn)

theorem sentences_split_every_terminal_witness:
  "list_all (\<lambda>a. \<not> isTerminal a) (js ''Mr'') \<and> isTerminal (0x002E :: jschar)
   \<and> list_all (\<lambda>a. \<not> isTerminal a) (js '' Smith spoke'')
   \<and> mr_note = js ''Mr'' @ 0x002E # js '' Smith spoke''
   \<and> sentences mr_note = js ''Mr'' # sentences (js '' Smith spoke'')
   \<and> filter isTerminal mr_note = [0x002E]
   \<and> length (sentences mr_note) = 2
   \<and> interleave (sentences mr_note) [0x002E] = mr_note
   \<and> interleave [js ''Mr'', js '' Smith spoke''] [0x002E] = mr_note
   \<and> sentences (interleave [js ''Mr'', js '' Smith spoke''] [0x002E])
        = [js ''Mr'', js '' Smith spoke'']"
proof -
  have a: "\<forall>a \<in> set (js ''Mr''). \<not> isTerminal a"
    by (simp add: js_def isTerminal_def)
  have a': "list_all (\<lambda>a. \<not> isTerminal a) (js ''Mr'')"
    using a by (simp add: list_all_iff)
  have a2: "\<forall>a \<in> set (js '' Smith spoke''). \<not> isTerminal a"
    by (simp add: js_def isTerminal_def)
  have a2': "list_all (\<lambda>a. \<not> isTerminal a) (js '' Smith spoke'')"
    using a2 by (simp add: list_all_iff)
  have b: "isTerminal (0x002E :: jschar)"
    by (simp add: isTerminal_def)
  have m: "mr_note = js ''Mr'' @ 0x002E # js '' Smith spoke''"
    by (simp add: mr_note_def js_def)
  have m': "interleave [js ''Mr'', js '' Smith spoke''] [0x002E] = mr_note"
    by (simp add: m)
  have f: "filter isTerminal mr_note = [0x002E]"
    by (simp add: mr_note_def js_def isTerminal_def)
  note w = sentences_split_every_terminal
    [where t = mr_note and u = "js ''Mr''" and d = "0x002E" and v = "js '' Smith spoke''"
       and ps = "[js ''Mr'', js '' Smith spoke'']" and seps = "[0x002E]"]
  from w a b have c: "sentences (js ''Mr'' @ 0x002E # js '' Smith spoke'')
      = js ''Mr'' # sentences (js '' Smith spoke'')"
    by blast
  from w f have n: "length (sentences mr_note) = 2"
    and r: "interleave (sentences mr_note) [0x002E] = mr_note"
    by simp_all
  from c m have c': "sentences mr_note = js ''Mr'' # sentences (js '' Smith spoke'')"
    by simp
  have p1: "\<forall>w \<in> set [js ''Mr'', js '' Smith spoke'']. \<forall>a \<in> set w. \<not> isTerminal a"
    using a a2 by simp
  have p2: "\<forall>c \<in> set [0x002E :: jschar]. isTerminal c"
    using b by simp
  have p3: "length [js ''Mr'', js '' Smith spoke''] = Suc (length [0x002E :: jschar])"
    by simp
  from w p1 p2 p3 have u: "sentences (interleave [js ''Mr'', js '' Smith spoke''] [0x002E])
        = [js ''Mr'', js '' Smith spoke'']"
    by blast
  from a' b a2' m c' f n r m' u show ?thesis
    by blast
qed


subsection \<open>C4: a failing oracle\<close>

text \<open>
  C4.  When the oracle's outcome is a missing response, a response text that is not
  parseable JSON, a parsed object without a \<open>title\<close>, or one whose \<open>title\<close> is not a string,
  \<open>generateTitle\<close> resolves to \<open>null\<close> (it does not reject), its last effect is a notice,
  and its caller renames nothing; when the model was reached, that notice is one of the three
  failure notices of the response.
\<close>

theorem oracle_failure_reported:
  assumes "oracleFailure e (generateContent e (apiKey st) (modelId st)
             (titlePrompt (fst (extractSentences e st c))))"
  shows "fst (generateTitle e st c) = Resolved None
       \<and> (\<exists>m evs. snd (generateTitle e st c) = evs @ [Notice m])
       \<and> filter isRenameFile (generateAndUpdate e st f c) = []
       \<and> (apiKey st \<noteq> [] \<and> trim (fst (extractSentences e st c)) \<noteq> [] \<longrightarrow>
            (\<exists>m \<in> {MSG_NO_RESPONSE, MSG_PARSE_FAILED, MSG_INVALID_TITLE}.
               snd (generateTitle e st c) = snd (extractSentences e st c)
                 @ [GenerateContent (titlePrompt (fst (extractSentences e st c))), Notice m]))"
proof -
  let ?x = "fst (extractSentences e st c)"
  obtain m where m: "m \<in> {MSG_NO_RESPONSE, MSG_PARSE_FAILED, MSG_INVALID_TITLE}"
    and rq: "requestTitle e st ?x = (Inr None, [GenerateContent (titlePrompt ?x), Notice m])"
    using requestTitle_failure [OF assms] by blast
  have reached: "apiKey st \<noteq> [] \<and> trim ?x \<noteq> [] \<Longrightarrow>
      generateTitle e st c
        = (Resolved None, snd (extractSentences e st c) @ [GenerateContent (titlePrompt ?x), Notice m])"
    using generateTitle_request [of st e c None] rq by simp
  have none: "fst (generateTitle e st c) = Resolved None
       \<and> (\<exists>m evs. snd (generateTitle e st c) = evs @ [Notice m])"
  proof (cases "apiKey st \<noteq> [] \<and> trim ?x \<noteq> []")
    case True
    then have "snd (generateTitle e st c)
        = (snd (extractSentences e st c) @ [GenerateContent (titlePrompt ?x)]) @ [Notice m]"
      using reached by simp
    then show ?thesis using reached True by (metis fst_conv)
  next
    case False
    then show ?thesis using generateTitle_blank_context [of st e c] by blast
  qed
  moreover have "filter isRenameFile (generateAndUpdate e st f c) = []"
    using none generateAndUpdate_None [of e st c f] generateTitle_no_rename [of e st c] by simp
  moreover have "apiKey st \<noteq> [] \<and> trim ?x \<noteq> [] \<longrightarrow>
            (\<exists>m \<in> {MSG_NO_RESPONSE, MSG_PARSE_FAILED, MSG_INVALID_TITLE}.
               snd (generateTitle e st c) = snd (extractSentences e st c)
                 @ [GenerateContent (titlePrompt ?x), Notice m])"
    using reached m by auto
  ultimately show ?thesis by blast
qed

theorem oracle_failure_reported_witness:
  "oracleFailure no_response_env
     (generateContent no_response_env (apiKey example_settings) (modelId example_settings)
        (titlePrompt (fst (extractSentences no_response_env example_settings pets_note))))
   \<and> generateTitle no_response_env example_settings pets_note
       = (Resolved None,
          [Summarize 8 pets_note, GenerateContent (titlePrompt (js ''Cats are mammals.'')),
           Notice MSG_NO_RESPONSE])
   \<and> filter isRenameFile (generateAndUpdate no_response_env example_settings great_note pets_note)
       = []"
proof -
  have h: "oracleFailure no_response_env
     (generateContent no_response_env (apiKey example_settings) (modelId example_settings)
        (titlePrompt (fst (extractSentences no_response_env example_settings pets_note))))"
    by (simp add: oracleFailure_def no_response_env_def constant_env_def)
  have g: "generateTitle no_response_env example_settings pets_note
       = (Resolved None,
          [Summarize 8 pets_note, GenerateContent (titlePrompt (js ''Cats are mammals.'')),
           Notice MSG_NO_RESPONSE])"
    by (simp add: eval_defs no_response_env_def pets_note_def)
  from oracle_failure_reported [OF h, of great_note] h g show ?thesis
    by simp
qed


subsection \<open>C5: the rename that is not needed\<close>

text \<open>
  C5.  If the sanitized title is empty, or the path built from it is the file's current
  path, \<open>updateNoteTitle\<close> resolves to \<open>false\<close> without a call of \<open>renameFile\<close>, and its only
  effect is one of the three notices that end in "No changes made."; the notice of a failed
  rename is not shown.
\<close>

theorem updateNoteTitle_noop:
  assumes "sanitizedTitle t = [] \<or> newPath f (sanitizedTitle t) = path f"
  shows "fst (updateNoteTitle e f t) = Resolved False
       \<and> filter isRenameFile (snd (updateNoteTitle e f t)) = []
       \<and> snd (updateNoteTitle e f t) \<in>
           {[Notice MSG_GENERATED_EMPTY], [Notice MSG_SANITIZED_EMPTY],
            [Notice (MSG_ALREADY (sanitizedTitle t))]}
       \<and> Notice MSG_ERROR_UPDATING \<notin> set (snd (updateNoteTitle e f t))"
  using assms MSG_ERROR_UPDATING_distinct [of "sanitizedTitle t"]
  by (auto simp: updateNoteTitle_def)

theorem updateNoteTitle_noop_witness:
  "(sanitizedTitle padded_title = []
      \<or> newPath great_note (sanitizedTitle padded_title) = path great_note)
   \<and> sanitizedTitle padded_title = js ''My Great Note''
   \<and> updateNoteTitle images_env great_note padded_title
       = (Resolved False, [Notice (MSG_ALREADY (js ''My Great Note''))])"
proof -
  have s: "sanitizedTitle padded_title = js ''My Great Note''"
    by (simp add: sanitizedTitle_def replaceAll_def isForbidden_def isNewlineOrReturn_def
        padded_title_def js_def trim_def isWhiteSpace_def isLineTerminator_def)
  have p: "newPath great_note (js ''My Great Note'') = path great_note"
    by (simp add: great_note_def newPath_def js_def)
  have h: "sanitizedTitle padded_title = []
      \<or> newPath great_note (sanitizedTitle padded_title) = path great_note"
    using s p by simp
  have nb: "padded_title \<noteq> [] \<and> trim padded_title \<noteq> [] \<and> js ''My Great Note'' \<noteq> []"
    by (simp add: padded_title_def js_def trim_def isWhiteSpace_def isLineTerminator_def)
  have u: "updateNoteTitle images_env great_note padded_title
      = (Resolved False, [Notice (MSG_ALREADY (js ''My Great Note''))])"
    by (simp add: updateNoteTitle_def s p nb)
  from updateNoteTitle_noop [OF h, of images_env] h s u show ?thesis
    by simp
qed


subsection \<open>C6: how many sentences are selected\<close>

text \<open>
  C6.  With a positive number of sentences \<open>K\<close> configured, the earlier \<open>generateTitle\<close>
  selects \<open>min K N\<close> sentences, \<open>N\<close> being the number of qualifying sentences (not empty
  after trimming, at least three tokens); when \<open>N < K\<close> it selects all of them.
\<close>

theorem sentencesToUse_bound:
  assumes "0 < numberOfSentences st"
  shows "length (sentencesToUse st t)
           = min (nat (numberOfSentences st)) (length (filter qualifies (map trim (sentences t))))
       \<and> (int (length (filter qualifies (map trim (sentences t)))) < numberOfSentences st
            \<longrightarrow> sentencesToUse st t = filter qualifies (map trim (sentences t)))"
  using assms by (auto simp: sentencesToUse_def slice0_def validSentences_qualifies min_def)

theorem sentencesToUse_bound_witness:
  "0 < numberOfSentences two_sentences
   \<and> filter qualifies (map trim (sentences pets_note))
       = [js ''Cats are mammals'', js ''Dogs are mammals too'', js ''Both are popular pets'',
          js ''Birds can fly'']
   \<and> sentencesToUse two_sentences pets_note
       = [js ''Cats are mammals'', js ''Dogs are mammals too'']
   \<and> int (length (filter qualifies (map trim (sentences pets_note))))
       < numberOfSentences example_settings
   \<and> sentencesToUse example_settings pets_note
       = filter qualifies (map trim (sentences pets_note))"
proof -
  have h: "0 < numberOfSentences two_sentences"
    by (simp add: two_sentences_def)
  have q: "filter qualifies (map trim (sentences pets_note))
       = [js ''Cats are mammals'', js ''Dogs are mammals too'', js ''Both are popular pets'',
          js ''Birds can fly'']"
    by (simp add: sentences_def qualifies_def isTerminal_def pets_note_def js_def trim_def
        isWhiteSpace_def isLineTerminator_def)
  have u: "sentencesToUse two_sentences pets_note
       = [js ''Cats are mammals'', js ''Dogs are mammals too'']"
    by (simp add: sentencesToUse_def validSentences_qualifies q slice0_def two_sentences_def)
  have h': "0 < numberOfSentences example_settings"
    by (simp add: example_settings_def DEFAULT_PLUGIN_SETTINGS_def)
  have k: "int (length (filter qualifies (map trim (sentences pets_note))))
       < numberOfSentences example_settings"
    by (simp add: q example_settings_def DEFAULT_PLUGIN_SETTINGS_def)
  from sentencesToUse_bound [OF h, of pets_note] sentencesToUse_bound [OF h', of pets_note]
    h q u k show ?thesis
    by simp
qed


subsection \<open>C8: no API key\<close>

text \<open>
  C8.  With an empty API key, \<open>generateTitle\<close> shows the configuration notice and resolves
  to \<open>null\<close>; that notice is its only effect: the summarizer is not run, the model is not
  called and nothing is tried again.
\<close>

theorem generateTitle_no_apiKey:
  "generateTitle e (st\<lparr>apiKey := []\<rparr>) noteContent
     = (Resolved None, [Notice MSG_API_KEY_NOT_SET])
   \<and> filter isSummarize (snd (generateTitle e (st\<lparr>apiKey := []\<rparr>) noteContent)) = []
   \<and> filter isGenerateContent (snd (generateTitle e (st\<lparr>apiKey := []\<rparr>) noteContent)) = []"
  by (simp add: generateTitle_def)


subsection \<open>C9: the sanitized title\<close>

text \<open>
  C9.  The sanitized title of \<open>updateNoteTitle\<close> is the title with the characters
  \<open>\ / : * ? " < > |\<close> removed, then every newline and carriage return replaced by a space,
  then trimmed; the title "  My Great Note  " gives "My Great Note"; and a rename, when
  there is one, is to the path built from that sanitized title.
\<close>

theorem sanitizedTitle_spec:
  "sanitizedTitle t = sanitize_spec t
   \<and> sanitizedTitle padded_title = js ''My Great Note''
   \<and> filter isRenameFile (snd (updateNoteTitle e f t))
       \<in> {[], [RenameFile (path f) (newPath f (sanitize_spec t))]}"
proof -
  have "isForbidden c \<longleftrightarrow> c \<in> set illegalChars" for c
    by (auto simp: isForbidden_def illegalChars_def)
  moreover have "js '' '' = [0x0020]"
    by (simp add: js_def)
  ultimately have eq: "sanitizedTitle t = sanitize_spec t" for t
    by (simp add: sanitizedTitle_def sanitize_spec_def replaceAll_remove replaceAll_single
        isNewlineOrReturn_def)
  have ex: "sanitizedTitle padded_title = js ''My Great Note''"
    by (simp add: sanitizedTitle_def replaceAll_def isForbidden_def isNewlineOrReturn_def
        padded_title_def js_def trim_def isWhiteSpace_def isLineTerminator_def)
  have "filter isRenameFile (snd (updateNoteTitle e f t))
       \<in> {[], [RenameFile (path f) (newPath f (sanitize_spec t))]}"
    by (simp add: updateNoteTitle_def eq)
  with eq ex show ?thesis by simp
qed

theorem sanitizedTitle_spec_witness:
  "sanitizedTitle messy_title = js ''My Great Note''
   \<and> sanitize_spec messy_title = js ''My Great Note''"
proof -
  have "sanitizedTitle messy_title = js ''My Great Note''"
    by (simp add: sanitizedTitle_def replaceAll_def isForbidden_def isNewlineOrReturn_def
        messy_title_def js_def trim_def isWhiteSpace_def isLineTerminator_def)
  with sanitizedTitle_spec [of messy_title images_env great_note] show ?thesis
    by simp
qed


subsection \<open>C10: an empty title\<close>

text \<open>
  C10.  When the response parses to an object whose \<open>title\<close> is the empty string,
  \<open>generateTitle\<close> resolves to \<open>null\<close> and its caller renames nothing; when the model was
  reached, the last effect is the notice of an invalid title.
\<close>

theorem empty_title_rejected:
  assumes "emptyTitleResponse e (generateContent e (apiKey st) (modelId st)
             (titlePrompt (fst (extractSentences e st c))))"
  shows "fst (generateTitle e st c) = Resolved None
       \<and> filter isRenameFile (generateAndUpdate e st f c) = []
       \<and> (apiKey st \<noteq> [] \<and> trim (fst (extractSentences e st c)) \<noteq> [] \<longrightarrow>
             snd (generateTitle e st c) = snd (extractSentences e st c)
               @ [GenerateContent (titlePrompt (fst (extractSentences e st c))),
                  Notice MSG_INVALID_TITLE])"
proof -
  let ?x = "fst (extractSentences e st c)"
  have rq: "requestTitle e st ?x
      = (Inr None, [GenerateContent (titlePrompt ?x), Notice MSG_INVALID_TITLE])"
    using requestTitle_empty_title [OF assms] .
  have reached: "apiKey st \<noteq> [] \<and> trim ?x \<noteq> [] \<Longrightarrow>
      generateTitle e st c
        = (Resolved None, snd (extractSentences e st c)
             @ [GenerateContent (titlePrompt ?x), Notice MSG_INVALID_TITLE])"
    using generateTitle_request [of st e c None] rq by simp
  have none: "fst (generateTitle e st c) = Resolved None"
  proof (cases "apiKey st \<noteq> [] \<and> trim ?x \<noteq> []")
    case True
    then show ?thesis using reached by simp
  next
    case False
    then show ?thesis using generateTitle_blank_context [of st e c] by blast
  qed
  moreover have "filter isRenameFile (generateAndUpdate e st f c) = []"
    using none generateAndUpdate_None [of e st c f] generateTitle_no_rename [of e st c] by simp
  ultimately show ?thesis using reached by simp
qed

theorem empty_title_rejected_witness:
  "emptyTitleResponse empty_title_env
     (generateContent empty_title_env (apiKey example_settings) (modelId example_settings)
        (titlePrompt (fst (extractSentences empty_title_env example_settings pets_note))))
   \<and> generateTitle empty_title_env example_settings pets_note
       = (Resolved None,
          [Summarize 8 pets_note, GenerateContent (titlePrompt (js ''Cats are mammals.'')),
           Notice MSG_INVALID_TITLE])
   \<and> filter isRenameFile (generateAndUpdate empty_title_env example_settings great_note pets_note)
       = []"
proof -
  have h: "emptyTitleResponse empty_title_env
     (generateContent empty_title_env (apiKey example_settings) (modelId example_settings)
        (titlePrompt (fst (extractSentences empty_title_env example_settings pets_note))))"
    by (simp add: emptyTitleResponse_def empty_title_env_def constant_env_def)
  have g: "generateTitle empty_title_env example_settings pets_note
       = (Resolved None,
          [Summarize 8 pets_note, GenerateContent (titlePrompt (js ''Cats are mammals.'')),
           Notice MSG_INVALID_TITLE])"
    by (simp add: eval_defs empty_title_env_def pets_note_def)
  from empty_title_rejected [OF h, of great_note] h g show ?thesis
    by simp
qed

end
